theory Spec2Isabelle
  imports Main "HOL-Library.Word"
begin

section \<open>JavaScript values\<close>

text \<open>
  A JavaScript string is a sequence of UTF-16 code units. \<open>js\<close> turns an ASCII literal
  of the source into one.
\<close>

type_synonym jsstring = "16 word list"

definition js :: "string \<Rightarrow> jsstring" where
  "js s = map of_char s"

text \<open>
  The frames of the live channel and the bodies of the polled endpoints are untyped JSON.
  A value is what \<^verbatim>\<open>JSON.parse\<close> returns, plus \<^verbatim>\<open>undefined\<close>, which reading an
  absent property yields. The code does two things with a number: it prints it and it
  tests whether it is zero. A number is therefore carried by the text that
  \<^verbatim>\<open>Number.prototype.toString\<close> gives for it, which tells any two numbers apart except
  \<^verbatim>\<open>0\<close> and \<^verbatim>\<open>-0\<close>, both of which print as \<^verbatim>\<open>0\<close> and both of which are zero. An object is
  its list of own properties; where a name occurs twice the later entry wins, as in an
  object literal.
\<close>

datatype jsval =
    Undefined
  | Null
  | Bool bool
  | Num jsstring
  | Str jsstring
  | Arr "jsval list"
  | Obj "(jsstring \<times> jsval) list"

datatype js_error = TypeError | SyntaxError | SecurityError | NetworkError

fun string_of_nat :: "nat \<Rightarrow> string" where
  "string_of_nat n =
     (if n < 10 then [char_of (48 + n)]
      else string_of_nat (n div 10) @ [char_of (48 + n mod 10)])"

declare string_of_nat.simps [simp del]

text \<open>
  The own enumerable properties of a value, which is what object spread copies: the
  entries of an object, the elements of an array under their indices, the code units of
  a string under their indices, nothing for the other primitives.
\<close>

definition indexed :: "jsval list \<Rightarrow> (jsstring \<times> jsval) list" where
  "indexed xs = zip (map (\<lambda>i. js (string_of_nat i)) [0..<length xs]) xs"

fun props :: "jsval \<Rightarrow> (jsstring \<rightharpoonup> jsval)" where
  "props (Obj kvs) = map_of (rev kvs)"
| "props (Arr xs) = map_of (indexed xs)"
| "props (Str s) = map_of (indexed (map (\<lambda>u. Str [u]) s))"
| "props v = Map.empty"

text \<open>
  Reading \<^verbatim>\<open>v.k\<close>: a TypeError on \<^verbatim>\<open>null\<close> and \<^verbatim>\<open>undefined\<close>, the own property
  otherwise, \<^verbatim>\<open>undefined\<close> when there is none. The names the code reads (\<^verbatim>\<open>type\<close>,
  \<^verbatim>\<open>agent_id\<close>, \<^verbatim>\<open>error\<close>, \<^verbatim>\<open>alert\<close>, \<^verbatim>\<open>title\<close>, \<^verbatim>\<open>metrics\<close>) are on no
  built-in prototype.
\<close>

fun getprop :: "jsval \<Rightarrow> jsstring \<Rightarrow> js_error + jsval" where
  "getprop Undefined k = Inl TypeError"
| "getprop Null k = Inl TypeError"
| "getprop v k = Inr (case props v k of None \<Rightarrow> Undefined | Some x \<Rightarrow> x)"

text \<open>
  \<^verbatim>\<open>Array.prototype.join\<close> over elements that are already converted: the first
  conversion that threw, from the left, is what the join throws.
\<close>

fun join :: "jsstring \<Rightarrow> (js_error + jsstring) list \<Rightarrow> js_error + jsstring" where
  "join sep [] = Inr []"
| "join sep [x] = x"
| "join sep (x # y # ys) =
     (case x of
        Inl e \<Rightarrow> Inl e
      | Inr s \<Rightarrow> (case join sep (y # ys) of Inl e \<Rightarrow> Inl e | Inr r \<Rightarrow> Inr (s @ sep @ r)))"

text \<open>
  \<^verbatim>\<open>ToString\<close>, which a template literal applies to each interpolated value. An array
  joins its elements with commas, \<^verbatim>\<open>null\<close> and \<^verbatim>\<open>undefined\<close> elements as the empty
  string. A plain object is \<^verbatim>\<open>[object Object]\<close> through \<^verbatim>\<open>Object.prototype.toString\<close>,
  unless it has an own property \<^verbatim>\<open>toString\<close>: in a parsed frame that is never a
  function, the inherited \<^verbatim>\<open>valueOf\<close> returns the object itself, and the conversion
  throws a TypeError.
\<close>

fun ToString :: "jsval \<Rightarrow> js_error + jsstring" where
  "ToString Undefined = Inr (js ''undefined'')"
| "ToString Null = Inr (js ''null'')"
| "ToString (Bool b) = Inr (if b then js ''true'' else js ''false'')"
| "ToString (Num text) = Inr text"
| "ToString (Str s) = Inr s"
| "ToString (Arr xs) =
     join (js '','') (map (\<lambda>x. if x = Null \<or> x = Undefined then Inr [] else ToString x) xs)"
| "ToString (Obj kvs) =
     (case map_of (rev kvs) (js ''toString'') of
        None \<Rightarrow> Inr (js ''[object Object]'')
      | Some f \<Rightarrow> Inl TypeError)"

text \<open>
  Truthiness, as \<^verbatim>\<open>||\<close> and \<^verbatim>\<open>if\<close> test it: of the numbers, zero and
  \<^verbatim>\<open>NaN\<close> are falsy.
\<close>

fun truthy :: "jsval \<Rightarrow> bool" where
  "truthy Undefined = False"
| "truthy Null = False"
| "truthy (Bool b) = b"
| "truthy (Num text) = (text \<noteq> js ''0'' \<and> text \<noteq> js ''NaN'')"
| "truthy (Str s) = (s \<noteq> [])"
| "truthy v = True"

section \<open>The live channel client: \<^verbatim>\<open>frontend/hooks/useWebSocket.tsx\<close>\<close>

text \<open>
  \<^verbatim>\<open>WebSocketProvider\<close> holds three pieces of React state (\<^verbatim>\<open>socket\<close>,
  \<^verbatim>\<open>isConnected\<close>, \<^verbatim>\<open>data\<close>). Around it the model keeps what its callbacks act on: the
  WebSocket objects created so far (a store from references to objects, with the number
  allocated), the pending \<^verbatim>\<open>setTimeout(connect, d)\<close> timers by their delay in
  milliseconds, the toasts raised and the lines written to the console.
\<close>

datatype ready_state = CONNECTING | OPEN | CLOSING | CLOSED

record websocket =
  readyState :: ready_state
  sent :: "jsstring list"

datatype toast =
    ToastSuccess jsval
  | ToastError jsval
  | ToastIcon jsval jsstring

record client =
  socket :: "nat option"
  isConnected :: bool
  data :: "jsstring \<rightharpoonup> jsval"
  heap :: "nat \<Rightarrow> websocket"
  allocated :: nat
  timers :: "nat list"
  toasts :: "toast list"
  console :: "(string \<times> js_error option) list"

definition initial :: client where
  "initial =
     \<lparr>socket = None, isConnected = False, data = Map.empty,
      heap = (\<lambda>_. \<lparr>readyState = CLOSED, sent = []\<rparr>), allocated = 0,
      timers = [], toasts = [], console = []\<rparr>"

subsection \<open>The handlers installed on each socket\<close>

definition ws_onopen :: "nat \<Rightarrow> client \<Rightarrow> client" where
  "ws_onopen ws st =
     st\<lparr>isConnected := True, socket := Some ws,
        toasts := toasts st @ [ToastSuccess (Str (js ''Connected to real-time updates''))]\<rparr>"

text \<open>
  The dispatch on \<^verbatim>\<open>message.type\<close> that follows the merge. Every path raises at most one
  toast, and every property read and every conversion to a string that can throw comes
  before the toast of its path, so the result is either the exception or the toasts
  raised. A template literal reads and converts its values from left to right.
\<close>

definition warning_icon :: jsstring where
  "warning_icon = [0x26A0, 0xFE0F]"

definition alert_toast :: "jsval \<Rightarrow> js_error + toast list" where
  "alert_toast alert =
     (case getprop alert (js ''type'') of
        Inl e \<Rightarrow> Inl e
      | Inr t \<Rightarrow>
          if t = Str (js ''critical'') then
            (case getprop alert (js ''title'') of
               Inl e \<Rightarrow> Inl e
             | Inr title \<Rightarrow> Inr [ToastError title])
          else if t = Str (js ''warning'') then
            (case getprop alert (js ''title'') of
               Inl e \<Rightarrow> Inl e
             | Inr title \<Rightarrow> Inr [ToastIcon title warning_icon])
          else
            (case getprop alert (js ''title'') of
               Inl e \<Rightarrow> Inl e
             | Inr title \<Rightarrow> Inr [ToastSuccess title]))"

definition dispatch :: "jsval \<Rightarrow> js_error + toast list" where
  "dispatch message =
     (case getprop message (js ''type'') of
        Inl e \<Rightarrow> Inl e
      | Inr t \<Rightarrow>
          if t = Str (js ''agent_execution_complete'') then
            (case getprop message (js ''agent_id'') of
               Inl e \<Rightarrow> Inl e
             | Inr a \<Rightarrow>
                 (case ToString a of
                    Inl e \<Rightarrow> Inl e
                  | Inr agent \<Rightarrow> Inr [ToastSuccess (Str (js ''Agent '' @ agent @ js '' completed task''))]))
          else if t = Str (js ''agent_execution_error'') then
            (case getprop message (js ''agent_id'') of
               Inl e \<Rightarrow> Inl e
             | Inr a \<Rightarrow>
                 (case ToString a of
                    Inl e \<Rightarrow> Inl e
                  | Inr agent \<Rightarrow>
                      (case getprop message (js ''error'') of
                         Inl e \<Rightarrow> Inl e
                       | Inr err \<Rightarrow>
                           (case ToString err of
                              Inl e \<Rightarrow> Inl e
                            | Inr why \<Rightarrow>
                                Inr [ToastError (Str (js ''Agent '' @ agent @ js '' failed: '' @ why))]))))
          else if t = Str (js ''new_alert'') then
            (case getprop message (js ''alert'') of
               Inl e \<Rightarrow> Inl e
             | Inr alert \<Rightarrow> alert_toast alert)
          else Inr [])"

text \<open>
  \<^verbatim>\<open>ws.onmessage\<close>. Its argument is the outcome of \<^verbatim>\<open>JSON.parse(event.data)\<close>, the
  platform's parser: the exception it throws or the value it returns. The merge
  \<^verbatim>\<open>{...prev, ...message}\<close> is made before the dispatch, so it stays when the dispatch
  throws; the one \<^verbatim>\<open>catch\<close> logs either exception under the same text.
\<close>

definition parse_failed :: "js_error \<Rightarrow> string \<times> js_error option" where
  "parse_failed e = (''Failed to parse WebSocket message:'', Some e)"

definition ws_onmessage :: "js_error + jsval \<Rightarrow> client \<Rightarrow> client" where
  "ws_onmessage parsed st =
     (case parsed of
        Inl e \<Rightarrow> st\<lparr>console := console st @ [parse_failed e]\<rparr>
      | Inr message \<Rightarrow>
          (let st' = st\<lparr>data := data st ++ props message\<rparr> in
           case dispatch message of
             Inl e \<Rightarrow> st'\<lparr>console := console st' @ [parse_failed e]\<rparr>
           | Inr ts \<Rightarrow> st'\<lparr>toasts := toasts st' @ ts\<rparr>))"

definition ws_onclose :: "client \<Rightarrow> client" where
  "ws_onclose st =
     st\<lparr>isConnected := False, socket := None,
        toasts := toasts st @ [ToastError (Str (js ''Disconnected from real-time updates''))],
        timers := timers st @ [3000]\<rparr>"

definition ws_onerror :: "client \<Rightarrow> client" where
  "ws_onerror st =
     st\<lparr>console := console st @ [(''WebSocket error:'', None)],
        toasts := toasts st @ [ToastError (Str (js ''Connection error''))]\<rparr>"

subsection \<open>\<^verbatim>\<open>connect\<close>, the effect and its cleanup, \<^verbatim>\<open>sendMessage\<close>\<close>

text \<open>
  \<^verbatim>\<open>connect\<close> tests nothing before \<^verbatim>\<open>new WebSocket(...)\<close>. The constructor either
  returns a socket in state CONNECTING, on which the four handlers are installed, or
  throws, which the \<^verbatim>\<open>catch\<close> logs before it schedules \<^verbatim>\<open>connect\<close> again.
\<close>

datatype constructed = Returns | Throws js_error

definition connect :: "constructed \<Rightarrow> client \<Rightarrow> client" where
  "connect c st =
     (case c of
        Returns \<Rightarrow>
          st\<lparr>heap := (heap st)(allocated st := \<lparr>readyState = CONNECTING, sent = []\<rparr>),
             allocated := Suc (allocated st)\<rparr>
      | Throws e \<Rightarrow>
          st\<lparr>console := console st @ [(''Failed to connect WebSocket:'', Some e)],
             timers := timers st @ [5000]\<rparr>)"

text \<open>
  \<^verbatim>\<open>socket.close()\<close> of the platform: nothing on a socket that is closing or closed,
  otherwise the socket is CLOSING and its close event comes later.
\<close>

definition ws_close :: "nat \<Rightarrow> client \<Rightarrow> client" where
  "ws_close ws st =
     (if readyState (heap st ws) = CLOSING \<or> readyState (heap st ws) = CLOSED then st
      else st\<lparr>heap := (heap st)(ws := (heap st ws)\<lparr>readyState := CLOSING\<rparr>)\<rparr>)"

text \<open>
  The effect calls \<^verbatim>\<open>connect()\<close> on mount. Its cleanup is a closure over the
  \<^verbatim>\<open>socket\<close> of the render the effect ran in, which is its first argument here; the
  effect depends on \<^verbatim>\<open>connect\<close> alone, which never changes, so in the running
  component that value is the one of the first render, \<^verbatim>\<open>null\<close>.
\<close>

definition mount :: "constructed \<Rightarrow> client" where
  "mount c = connect c initial"

definition cleanup :: "nat option \<Rightarrow> client \<Rightarrow> client" where
  "cleanup captured st = (case captured of None \<Rightarrow> st | Some ws \<Rightarrow> ws_close ws st)"

text \<open>
  \<^verbatim>\<open>sendMessage\<close>. \<^verbatim>\<open>JSON.stringify\<close> is the platform's and is a parameter: it returns
  the text or throws (on a cyclic message), and is reached only on an open socket.
\<close>

definition sendMessage :: "('m \<Rightarrow> js_error + jsstring) \<Rightarrow> 'm \<Rightarrow> client \<Rightarrow> js_error + client" where
  "sendMessage stringify message st =
     (case socket st of
        None \<Rightarrow> Inr st
      | Some ws \<Rightarrow>
          if readyState (heap st ws) = OPEN then
            (case stringify message of
               Inl e \<Rightarrow> Inl e
             | Inr text \<Rightarrow>
                 Inr (st\<lparr>heap := (heap st)(ws := (heap st ws)\<lparr>sent := sent (heap st ws) @ [text]\<rparr>)\<rparr>))
          else Inr st)"

subsection \<open>What the platform delivers\<close>

text \<open>
  The events of a socket set its \<^verbatim>\<open>readyState\<close> and then run the handler; a timer that
  fires leaves the pending list and runs \<^verbatim>\<open>connect\<close>; a sequence of frames runs
  \<^verbatim>\<open>ws.onmessage\<close> once per frame, in the order of arrival.
\<close>

definition set_readyState :: "nat \<Rightarrow> ready_state \<Rightarrow> client \<Rightarrow> client" where
  "set_readyState ws r st = st\<lparr>heap := (heap st)(ws := (heap st ws)\<lparr>readyState := r\<rparr>)\<rparr>"

definition open_event :: "nat \<Rightarrow> client \<Rightarrow> client" where
  "open_event ws st = ws_onopen ws (set_readyState ws OPEN st)"

definition close_event :: "nat \<Rightarrow> client \<Rightarrow> client" where
  "close_event ws st = ws_onclose (set_readyState ws CLOSED st)"

definition timer_fires :: "nat \<Rightarrow> constructed \<Rightarrow> client \<Rightarrow> client" where
  "timer_fires i c st =
     (if i < length (timers st)
      then connect c (st\<lparr>timers := take i (timers st) @ drop (Suc i) (timers st)\<rparr>)
      else st)"

fun deliver :: "(js_error + jsval) list \<Rightarrow> client \<Rightarrow> client" where
  "deliver [] st = st"
| "deliver (f # fs) st = deliver fs (ws_onmessage f st)"

section \<open>The metrics poller: \<^verbatim>\<open>brainsait-website/public/enhanced-app.js\<close>\<close>

text \<open>
  \<^verbatim>\<open>BrainSaitApp\<close> keeps the last metrics payload in \<^verbatim>\<open>this.metrics\<close> and a
  connectivity flag in \<^verbatim>\<open>this.isConnected\<close>. \<^verbatim>\<open>pending\<close> counts the requests for
  \<^verbatim>\<open>/api/metrics\<close> that have been started and have not settled; the code keeps no such
  count, it is what a fetcher that counts its concurrent invocations would read.
\<close>

record app =
  metrics :: jsval
  app_isConnected :: bool
  pending :: nat
  app_console :: "(string \<times> js_error option) list"

text \<open>
  What one request comes to: \<^verbatim>\<open>fetch\<close> rejects, or resolves to a response with its
  \<^verbatim>\<open>ok\<close> flag and the outcome of \<^verbatim>\<open>response.json()\<close>, which is read only when the
  flag is set.
\<close>

datatype fetched = Rejected js_error | Response bool "js_error + jsval"

text \<open>
  \<^verbatim>\<open>updateMetrics\<close> is asynchronous: it starts the request and returns; the rest runs
  when the request settles. There \<^verbatim>\<open>updateMetricsDisplay\<close> writes to the page only, and
  its outcome (it throws when the page lacks an element it assigns to) is the second
  argument; \<^verbatim>\<open>updateConnectionStatus\<close>, which ends the function, changes the page and
  no field. A request settles only after it was started, so \<^verbatim>\<open>pending\<close> is positive
  whenever the second half runs.
\<close>

definition updateMetrics_start :: "app \<Rightarrow> app" where
  "updateMetrics_start a = a\<lparr>pending := Suc (pending a)\<rparr>"

text \<open>
  The constructor sets the fields and calls \<^verbatim>\<open>init()\<close>, which runs without a pause
  through \<^verbatim>\<open>initializeApp\<close> and \<^verbatim>\<open>loadInitialData\<close> into \<^verbatim>\<open>updateMetrics\<close>, up to its
  \<^verbatim>\<open>await fetch(...)\<close>: when \<^verbatim>\<open>new BrainSaitApp()\<close> returns, the first request is in
  flight.
\<close>

definition constructor :: app where
  "constructor =
     updateMetrics_start
       \<lparr>metrics = Obj [], app_isConnected = False, pending = 0, app_console = []\<rparr>"

definition caught :: "js_error \<Rightarrow> app \<Rightarrow> app" where
  "caught e a =
     a\<lparr>app_isConnected := False,
       app_console := app_console a @ [(''Metrics update failed:'', Some e)]\<rparr>"

definition updateMetrics_settle :: "fetched \<Rightarrow> js_error option \<Rightarrow> app \<Rightarrow> app" where
  "updateMetrics_settle outcome displayed a =
     (let a1 = a\<lparr>pending := pending a - 1\<rparr> in
      case outcome of
        Rejected e \<Rightarrow> caught e a1
      | Response ok body \<Rightarrow>
          if ok then
            (case body of
               Inl e \<Rightarrow> caught e a1
             | Inr d \<Rightarrow>
                 (case getprop d (js ''metrics'') of
                    Inl e \<Rightarrow> caught e a1
                  | Inr m \<Rightarrow>
                      (let a2 = a1\<lparr>metrics := (if truthy m then m else Obj [])\<rparr> in
                       case displayed of
                         Some e \<Rightarrow> caught e a2
                       | None \<Rightarrow> a2\<lparr>app_isConnected := True\<rparr>)))
          else a1)"

text \<open>
  \<^verbatim>\<open>init\<close> awaits the initial load, in which the first request settles, before
  \<^verbatim>\<open>startRealTimeUpdates\<close> registers \<^verbatim>\<open>setInterval(() => { this.updateMetrics(); }, 5000)\<close>:
  each tick of that timer calls \<^verbatim>\<open>updateMetrics\<close>.
\<close>

definition started :: "fetched \<Rightarrow> js_error option \<Rightarrow> app" where
  "started outcome displayed = updateMetrics_settle outcome displayed constructor"

definition tick :: "app \<Rightarrow> app" where
  "tick a = updateMetrics_start a"

fun ticks :: "nat \<Rightarrow> app \<Rightarrow> app" where
  "ticks 0 a = a"
| "ticks (Suc n) a = ticks n (tick a)"

section \<open>The dashboard's polled resources: the page component, \<^verbatim>\<open>src/unnamed/part_002\<close>\<close>

text \<open>
  The four query functions are alike but for the path: they await \<^verbatim>\<open>fetch(path)\<close> and
  return \<^verbatim>\<open>response.json()\<close>. None of them looks at \<^verbatim>\<open>response.ok\<close>: the promise
  rejects when \<^verbatim>\<open>fetch\<close> rejects or when the body is not JSON, and resolves to the
  parsed body otherwise, whatever the status of the response. The platform's \<^verbatim>\<open>fetch\<close>
  is the parameter: what a request to a path comes to.
\<close>

definition fetchAgents :: "(string \<Rightarrow> fetched) \<Rightarrow> js_error + jsval" where
  "fetchAgents fetch =
     (case fetch ''/api/enhanced/agents'' of
        Rejected e \<Rightarrow> Inl e
      | Response ok body \<Rightarrow> body)"

definition fetchMetrics :: "(string \<Rightarrow> fetched) \<Rightarrow> js_error + jsval" where
  "fetchMetrics fetch =
     (case fetch ''/api/enhanced/metrics/realtime'' of
        Rejected e \<Rightarrow> Inl e
      | Response ok body \<Rightarrow> body)"

definition fetchAlerts :: "(string \<Rightarrow> fetched) \<Rightarrow> js_error + jsval" where
  "fetchAlerts fetch =
     (case fetch ''/api/enhanced/alerts'' of
        Rejected e \<Rightarrow> Inl e
      | Response ok body \<Rightarrow> body)"

definition fetchWorkflows :: "(string \<Rightarrow> fetched) \<Rightarrow> js_error + jsval" where
  "fetchWorkflows fetch =
     (case fetch ''/api/enhanced/workflows'' of
        Rejected e \<Rightarrow> Inl e
      | Response ok body \<Rightarrow> body)"

text \<open>
  The component registers them with \<^verbatim>\<open>useQuery\<close> under the keys \<^verbatim>\<open>agents\<close>,
  \<^verbatim>\<open>metrics\<close>, \<^verbatim>\<open>alerts\<close> and \<^verbatim>\<open>workflows\<close>, the first three with a refetch interval
  in milliseconds.
\<close>

datatype resource = Agents | Metrics | Alerts | Workflows

fun queryFn :: "resource \<Rightarrow> (string \<Rightarrow> fetched) \<Rightarrow> js_error + jsval" where
  "queryFn Agents = fetchAgents"
| "queryFn Metrics = fetchMetrics"
| "queryFn Alerts = fetchAlerts"
| "queryFn Workflows = fetchWorkflows"

fun refetchInterval :: "resource \<Rightarrow> nat option" where
  "refetchInterval Agents = Some 10000"
| "refetchInterval Metrics = Some 5000"
| "refetchInterval Alerts = Some 15000"
| "refetchInterval Workflows = None"

text \<open>
  Modelled from the spec: \<^verbatim>\<open>useQuery\<close> belongs to the react-query library, whose code
  is not in the repository, so the snapshot it keeps for a resource and the step that
  consumes the outcome of the query function follow the specification, sections 3 and
  4.2: a snapshot is the last payload, an error flag and a timestamp; on completion,
  success replaces the payload, clears the error flag and stamps the time, failure
  keeps the old payload, sets the error flag and stamps the time. Success and failure
  are the promise of the query function resolving and rejecting.
\<close>

record snapshot =
  payload :: jsval
  failed :: bool
  stamped :: nat

definition completed :: "js_error + jsval \<Rightarrow> nat \<Rightarrow> snapshot \<Rightarrow> snapshot" where
  "completed outcome now s =
     (case outcome of
        Inr v \<Rightarrow> \<lparr>payload = v, failed = False, stamped = now\<rparr>
      | Inl e \<Rightarrow> s\<lparr>failed := True, stamped := now\<rparr>)"

definition refetch ::
  "resource \<Rightarrow> (string \<Rightarrow> fetched) \<Rightarrow> nat \<Rightarrow> (resource \<Rightarrow> snapshot) \<Rightarrow> (resource \<Rightarrow> snapshot)" where
  "refetch r fetch now snapshots = snapshots(r := completed (queryFn r fetch) now (snapshots r))"

section \<open>The inputs of the scenarios\<close>

text \<open>
  The value \<^verbatim>\<open>JSON.parse\<close> returns for the frame
  \<^verbatim>\<open>{"type":"new_alert","alert":{"type":"critical","title":"X"}}\<close>, and the same frame
  with any title.
\<close>

definition critical_titled :: "jsstring \<Rightarrow> jsval" where
  "critical_titled title =
     Obj [(js ''type'', Str (js ''new_alert'')),
          (js ''alert'', Obj [(js ''type'', Str (js ''critical'')), (js ''title'', Str title)])]"

definition critical_alert :: jsval where
  "critical_alert = critical_titled (js ''X'')"

text \<open>
  A mounted client whose first socket has opened, and the same client once the closing
  handshake of that socket has begun and its close event has not arrived yet.
\<close>

definition connected :: client where
  "connected = open_event 0 (mount Returns)"

definition closing :: client where
  "closing = set_readyState 0 CLOSING connected"

text \<open>
  A snapshot of the dashboard's metrics after a successful poll, and the JSON body of a
  response with status 500.
\<close>

definition good_snapshot :: snapshot where
  "good_snapshot = \<lparr>payload = Obj [(js ''requests'', Num (js ''10''))], failed = False, stamped = 1\<rparr>"

definition error_body :: jsval where
  "error_body = Obj [(js ''detail'', Str (js ''Internal Server Error''))]"

text \<open>
  The dashboard with that snapshot for every resource, and a server that answers every
  request with status 500 and that body.
\<close>

definition all_good :: "resource \<Rightarrow> snapshot" where
  "all_good r = good_snapshot"

definition server_error :: "string \<Rightarrow> fetched" where
  "server_error path = Response False (Inr error_body)"

text \<open>
  The body of a successful response of the website's \<^verbatim>\<open>/api/metrics\<close> with no metrics
  yet, \<^verbatim>\<open>{"metrics":{}}\<close>.
\<close>

definition no_metrics :: fetched where
  "no_metrics = Response True (Inr (Obj [(js ''metrics'', Obj [])]))"

text \<open>
  What a sequence of frames is expected to leave behind, frame by frame: the frames that
  parsed, the toasts the dispatch of one frame raises, and the console line of a frame
  that did not parse or whose dispatch threw.
\<close>

fun parsed_frames :: "(js_error + jsval) list \<Rightarrow> jsval list" where
  "parsed_frames [] = []"
| "parsed_frames (Inl e # fs) = parsed_frames fs"
| "parsed_frames (Inr m # fs) = m # parsed_frames fs"

definition raised :: "js_error + jsval \<Rightarrow> toast list" where
  "raised f =
     (case f of
        Inl e \<Rightarrow> []
      | Inr m \<Rightarrow> (case dispatch m of Inl e \<Rightarrow> [] | Inr ts \<Rightarrow> ts))"

definition logged :: "js_error + jsval \<Rightarrow> (string \<times> js_error option) list" where
  "logged f =
     (case f of
        Inl e \<Rightarrow> [parse_failed e]
      | Inr m \<Rightarrow> (case dispatch m of Inl e \<Rightarrow> [parse_failed e] | Inr ts \<Rightarrow> []))"

section \<open>Facts about strings\<close>

lemma of_char_less: "(of_char c :: nat) < 65536"
proof -
  have "(of_char c :: nat) mod 256 = of_char c" by simp
  then have "(of_char c :: nat) < 256"
    by (metis mod_less_divisor zero_less_numeral)
  then show ?thesis by linarith
qed

lemma unat_of_char: "unat (of_char c :: 16 word) = of_char c"
proof -
  have "(of_char c :: 16 word) = word_of_nat (of_char c)"
    by (simp add: of_nat_of_char)
  then have "unat (of_char c :: 16 word) = of_char c mod 2 ^ 16"
    by (simp add: unat_of_nat)
  then show ?thesis
    using of_char_less [of c] by simp
qed

lemma of_char_word_inj: "(of_char c :: 16 word) = of_char d \<longleftrightarrow> c = d"
proof
  assume "(of_char c :: 16 word) = of_char d"
  then have "unat (of_char c :: 16 word) = unat (of_char d :: 16 word)"
    by simp
  then have "(of_char c :: nat) = of_char d"
    by (simp only: unat_of_char)
  then show "c = d" by simp
qed simp

lemma js_eq_iff [simp]: "js a = js b \<longleftrightarrow> a = b"
  unfolding js_def
proof (induction a arbitrary: b)
  case Nil
  show ?case by auto
next
  case (Cons c a)
  show ?case by (cases b) (auto simp: of_char_word_inj Cons.IH)
qed

section \<open>Properties of the live channel client\<close>

lemmas client_defs =
  ws_onopen_def ws_onclose_def ws_onerror_def connect_def ws_close_def mount_def cleanup_def
  set_readyState_def open_event_def close_event_def timer_fires_def initial_def
  connected_def closing_def

subsection \<open>Teardown and reconnection\<close>

text \<open>
  C1 says that after the teardown no reconnect is scheduled or executed any more, even
  when the close signal of the transport arrives afterwards. \<^verbatim>\<open>ws.onclose\<close> does not
  know why its socket closed, and nothing records that the component is gone. Mount, let
  the socket open, run the cleanup of the running component, whose closure holds
  \<^verbatim>\<open>null\<close> and leaves the socket open, deliver the close event of the socket when the
  transport drops: a timer of 3000 ms is pending, and when it fires a second transport
  is opened.
\<close>

theorem reconnect_after_cleanup_counterexample:
  "allocated (cleanup None connected) = 1 \<and>
   readyState (heap (cleanup None connected) 0) = OPEN \<and>
   timers (cleanup None connected) = [] \<and>
   timers (close_event 0 (cleanup None connected)) = [3000] \<and>
   allocated (timer_fires 0 Returns (close_event 0 (cleanup None connected))) = 2"
  by (simp add: client_defs)

text \<open>
  C1, as the code has it: the cleanup closes the socket its closure holds, if it holds
  one (a socket that is not closed yet is CLOSING afterwards), and does nothing when it
  holds none; it leaves the pending timers, the \<^verbatim>\<open>socket\<close> state and the flag as they
  are. A close event that arrives afterwards schedules \<^verbatim>\<open>connect\<close> after 3000 ms as any
  other drop does, and that timer, when it fires, opens one more transport.
\<close>

theorem cleanup_does_not_stop_reconnect:
  "cleanup None st = st \<and>
   readyState (heap (cleanup (Some ws) st) ws) =
     (if readyState (heap st ws) = CLOSED then CLOSED else CLOSING) \<and>
   timers (cleanup captured st) = timers st \<and>
   socket (cleanup captured st) = socket st \<and>
   isConnected (cleanup captured st) = isConnected st \<and>
   timers (close_event ws' (cleanup captured st)) = timers st @ [3000] \<and>
   allocated (timer_fires (length (timers st)) Returns (close_event ws' (cleanup captured st)))
     = Suc (allocated st)"
  by (simp add: client_defs split: option.splits)

subsection \<open>\<^verbatim>\<open>connect\<close> has no guard\<close>

text \<open>
  C2 says that \<^verbatim>\<open>connect()\<close> is a no-op on a client that is connecting or connected,
  so that two calls in a row open one transport. After the mount the first socket is
  CONNECTING; a second call opens a second one, and so does a call on the connected
  client.
\<close>

theorem connect_twice_counterexample:
  "allocated (mount Returns) = 1 \<and>
   readyState (heap (mount Returns) 0) = CONNECTING \<and>
   allocated (connect Returns (mount Returns)) = 2 \<and>
   isConnected connected \<and>
   allocated (connect Returns connected) = 2"
  by (simp add: client_defs)

text \<open>
  C2, as the code has it: in every state a call of \<^verbatim>\<open>connect()\<close> whose constructor
  returns opens exactly one new transport, in state CONNECTING, and leaves the React
  state and the timers alone.
\<close>

theorem connect_always_opens:
  "allocated (connect Returns st) = Suc (allocated st) \<and>
   readyState (heap (connect Returns st) (allocated st)) = CONNECTING \<and>
   socket (connect Returns st) = socket st \<and>
   isConnected (connect Returns st) = isConnected st \<and>
   data (connect Returns st) = data st \<and>
   timers (connect Returns st) = timers st"
  by (simp add: client_defs)

subsection \<open>The delay before a reconnect\<close>

text \<open>
  C7 says that every failed attempt and every drop schedules the next attempt after the
  same 3 seconds. When the constructor throws, the \<^verbatim>\<open>catch\<close> of \<^verbatim>\<open>connect\<close> schedules
  it after 5000 ms.
\<close>

theorem constructor_failure_delay_counterexample:
  "timers (connect (Throws SecurityError) initial) = [5000] \<and>
   timers (connect (Throws SecurityError) initial) \<noteq> [3000]"
  by (simp add: client_defs)

text \<open>
  C7, as the code has it: in every state, so after any number of earlier attempts, a
  close event schedules \<^verbatim>\<open>connect\<close> after exactly 3000 ms and a constructor that throws
  schedules it after exactly 5000 ms; nothing else is scheduled and no timer is dropped.
\<close>

theorem reconnect_delays:
  "timers (close_event ws st) = timers st @ [3000] \<and>
   timers (connect (Throws e) st) = timers st @ [5000]"
  by (simp add: client_defs)

subsection \<open>Inbound frames\<close>

text \<open>
  C5: a frame that \<^verbatim>\<open>JSON.parse\<close> rejects is logged and dropped. The handler writes one
  line to the console and changes nothing else: the data, the connection state, the
  sockets, the timers and the toasts are as before.
\<close>

theorem onmessage_parse_failure:
  "data (ws_onmessage (Inl e) st) = data st \<and>
   isConnected (ws_onmessage (Inl e) st) = isConnected st \<and>
   socket (ws_onmessage (Inl e) st) = socket st \<and>
   heap (ws_onmessage (Inl e) st) = heap st \<and>
   allocated (ws_onmessage (Inl e) st) = allocated st \<and>
   timers (ws_onmessage (Inl e) st) = timers st \<and>
   toasts (ws_onmessage (Inl e) st) = toasts st \<and>
   console (ws_onmessage (Inl e) st) = console st @ [parse_failed e]"
  by (simp add: ws_onmessage_def)

lemma dispatch_critical_titled: "dispatch (critical_titled t) = Inr [ToastError (Str t)]"
  by (simp add: dispatch_def alert_toast_def critical_titled_def)

text \<open>
  C6: the frame \<^verbatim>\<open>{"type":"new_alert","alert":{"type":"critical","title":"X"}}\<close> raises
  exactly one toast, an error toast with the text X, and leaves the connection state
  (the flag, the socket, the sockets' states, the timers) and the console unchanged.
\<close>

theorem critical_alert_one_error_toast:
  "toasts (ws_onmessage (Inr critical_alert) st) = toasts st @ [ToastError (Str (js ''X''))] \<and>
   isConnected (ws_onmessage (Inr critical_alert) st) = isConnected st \<and>
   socket (ws_onmessage (Inr critical_alert) st) = socket st \<and>
   heap (ws_onmessage (Inr critical_alert) st) = heap st \<and>
   allocated (ws_onmessage (Inr critical_alert) st) = allocated st \<and>
   timers (ws_onmessage (Inr critical_alert) st) = timers st \<and>
   console (ws_onmessage (Inr critical_alert) st) = console st"
  by (simp add: ws_onmessage_def critical_alert_def dispatch_critical_titled Let_def)

text \<open>
  What one frame adds to the data, to the toasts and to the console.
\<close>

lemma onmessage_data:
  "data (ws_onmessage f st) = (case f of Inl e \<Rightarrow> data st | Inr m \<Rightarrow> data st ++ props m)"
  by (simp add: ws_onmessage_def Let_def split: sum.splits)

lemma onmessage_toasts: "toasts (ws_onmessage f st) = toasts st @ raised f"
  by (simp add: ws_onmessage_def raised_def Let_def split: sum.splits)

lemma onmessage_console: "console (ws_onmessage f st) = console st @ logged f"
  by (simp add: ws_onmessage_def logged_def Let_def split: sum.splits)

lemma deliver_append: "deliver (fs @ gs) st = deliver gs (deliver fs st)"
  by (induction fs arbitrary: st) simp_all

lemma deliver_data:
  "data (deliver fs st) = foldl (\<lambda>d m. d ++ props m) (data st) (parsed_frames fs)"
proof (induction fs arbitrary: st)
  case Nil
  show ?case by simp
next
  case (Cons f fs)
  show ?case
  proof (cases f)
    case (Inl e)
    then show ?thesis
      using Cons.IH [of "ws_onmessage f st"] by (simp add: onmessage_data)
  next
    case (Inr m)
    then show ?thesis
      using Cons.IH [of "ws_onmessage f st"] by (simp add: onmessage_data)
  qed
qed

lemma deliver_toasts: "toasts (deliver fs st) = toasts st @ concat (map raised fs)"
proof (induction fs arbitrary: st)
  case Nil
  show ?case by simp
next
  case (Cons f fs)
  have "toasts (deliver (f # fs) st) = toasts (ws_onmessage f st) @ concat (map raised fs)"
    using Cons.IH [of "ws_onmessage f st"] by simp
  also have "toasts (ws_onmessage f st) = toasts st @ raised f"
    by (rule onmessage_toasts)
  finally show ?case by simp
qed

lemma deliver_console: "console (deliver fs st) = console st @ concat (map logged fs)"
proof (induction fs arbitrary: st)
  case Nil
  show ?case by simp
next
  case (Cons f fs)
  show ?case
    using Cons.IH [of "ws_onmessage f st"] onmessage_console [of f st] by simp
qed

lemma raised_critical_titled: "raised (Inr (critical_titled t)) = [ToastError (Str t)]"
  by (simp add: raised_def dispatch_critical_titled)

lemma deliver_critical_titled:
  "toasts (deliver (map (\<lambda>t. Inr (critical_titled t)) titles) st) =
     toasts st @ map (\<lambda>t. ToastError (Str t)) titles"
  by (induction titles arbitrary: st) (simp_all add: onmessage_toasts raised_critical_titled)

text \<open>
  C8: the handler deals with the frames one by one, each once, in the order they
  arrive. One call of the handler does all its frame has to do before it returns: it
  appends what the frame raises to the toasts, or the line of its failure to the
  console, whatever the state. After a sequence of frames the data is the old data with every frame that
  parsed merged in, in the order of arrival (a later frame overwrites an earlier one);
  the toasts are the old toasts followed by what each frame raises, in that order; the
  console has one more line for each frame that did not parse or whose dispatch threw,
  in that order. In particular a run of critical alerts gives their titles as error
  toasts in the order the alerts arrived. A frame that arrives after the frames \<open>fs\<close>
  is handled in the state they left: nothing is held back for later.
\<close>

theorem frames_handled_in_arrival_order:
  "toasts (ws_onmessage f st) = toasts st @ raised f \<and>
   console (ws_onmessage f st) = console st @ logged f \<and>
   data (deliver fs st) = foldl (\<lambda>d m. d ++ props m) (data st) (parsed_frames fs) \<and>
   toasts (deliver fs st) = toasts st @ concat (map raised fs) \<and>
   console (deliver fs st) = console st @ concat (map logged fs) \<and>
   toasts (deliver (map (\<lambda>t. Inr (critical_titled t)) titles) st) =
     toasts st @ map (\<lambda>t. ToastError (Str t)) titles \<and>
   deliver (fs @ [f]) st = ws_onmessage f (deliver fs st)"
proof (intro conjI)
  show "toasts (ws_onmessage f st) = toasts st @ raised f"
    by (rule onmessage_toasts)
  show "console (ws_onmessage f st) = console st @ logged f"
    by (rule onmessage_console)
  show "data (deliver fs st) = foldl (\<lambda>d m. d ++ props m) (data st) (parsed_frames fs)"
    by (rule deliver_data)
  show "toasts (deliver fs st) = toasts st @ concat (map raised fs)"
    by (rule deliver_toasts)
  show "console (deliver fs st) = console st @ concat (map logged fs)"
    by (rule deliver_console)
  show "toasts (deliver (map (\<lambda>t. Inr (critical_titled t)) titles) st) =
          toasts st @ map (\<lambda>t. ToastError (Str t)) titles"
    by (rule deliver_critical_titled)
  show "deliver (fs @ [f]) st = ws_onmessage f (deliver fs st)"
    by (simp add: deliver_append)
qed

text \<open>
  C10: every frame that parses is merged into the data, whatever its kind and whatever
  the dispatch after the merge does (it may raise a toast, raise none, or throw): a
  name that the frame has takes the frame's value, every other name keeps its own.
\<close>

theorem onmessage_shallow_merge:
  "data (ws_onmessage (Inr m) st) = data st ++ props m \<and>
   data (ws_onmessage (Inr m) st) k = (case props m k of None \<Rightarrow> data st k | Some v \<Rightarrow> Some v)"
  by (simp add: ws_onmessage_def Let_def map_add_def split: sum.splits)

subsection \<open>\<^verbatim>\<open>sendMessage\<close>\<close>

text \<open>
  C9: without a socket, or with a socket that is not OPEN, \<^verbatim>\<open>sendMessage\<close> returns
  normally and leaves every part of the state as it was, so nothing is sent; on an OPEN
  socket it sends the text \<^verbatim>\<open>JSON.stringify\<close> returns for the message, once.
\<close>

theorem sendMessage_only_when_open:
  "(socket st = None \<or> (\<exists>ws. socket st = Some ws \<and> readyState (heap st ws) \<noteq> OPEN)
      \<longrightarrow> sendMessage stringify m st = Inr st) \<and>
   (socket st = Some ws \<and> readyState (heap st ws) = OPEN \<and> stringify m = Inr text
      \<longrightarrow> sendMessage stringify m st =
            Inr (st\<lparr>heap := (heap st)(ws := (heap st ws)\<lparr>sent := sent (heap st ws) @ [text]\<rparr>)\<rparr>))"
  by (auto simp: sendMessage_def)

theorem sendMessage_only_when_open_witness:
  "sendMessage (\<lambda>m. Inr (js ''1'')) (Num (js ''1'')) initial = Inr initial \<and>
   sendMessage (\<lambda>m. Inr (js ''1'')) (Num (js ''1'')) closing = Inr closing \<and>
   sendMessage (\<lambda>m. Inr (js ''1'')) (Num (js ''1'')) connected =
     Inr (connected\<lparr>heap := (heap connected)(0 := \<lparr>readyState = OPEN, sent = [js ''1'']\<rparr>)\<rparr>)"
proof -
  have none: "socket initial = None"
    by (simp add: initial_def)
  have not_open: "socket closing = Some 0 \<and> readyState (heap closing 0) \<noteq> OPEN"
    by (simp add: client_defs)
  have is_open: "socket connected = Some 0 \<and> readyState (heap connected 0) = OPEN"
    by (simp add: client_defs)
  have at_0: "heap connected 0 = \<lparr>readyState = OPEN, sent = []\<rparr>"
    by (simp add: client_defs)
  show ?thesis
    using none not_open is_open at_0
      sendMessage_only_when_open [of initial "\<lambda>m. Inr (js ''1'')" "Num (js ''1'')"]
      sendMessage_only_when_open [of closing "\<lambda>m. Inr (js ''1'')" "Num (js ''1'')"]
      sendMessage_only_when_open [of connected "\<lambda>m. Inr (js ''1'')" "Num (js ''1'')" 0 "js ''1''"]
    by simp
qed

section \<open>Properties of the polled resources\<close>

lemmas fetcher_defs = fetchAgents_def fetchMetrics_def fetchAlerts_def fetchWorkflows_def

lemma queryFn_rejected: "queryFn r (\<lambda>path. Rejected e) = Inl e"
  by (cases r) (simp_all add: fetcher_defs)

lemma queryFn_response: "queryFn r (\<lambda>path. Response ok body) = body"
  by (cases r) (simp_all add: fetcher_defs)

text \<open>
  C3 says that a failed fetch of any resource leaves the stored payload as it was. The
  query functions of the dashboard do not test \<^verbatim>\<open>response.ok\<close>: when the server answers
  the metrics request with status 500 and a JSON body, \<^verbatim>\<open>fetchMetrics\<close> resolves to
  that body, and the body replaces the payload of the last successful poll.
\<close>

theorem dashboard_error_body_replaces_payload_counterexample:
  "payload (all_good Metrics) = Obj [(js ''requests'', Num (js ''10''))] \<and>
   fetchMetrics server_error = Inr error_body \<and>
   payload (refetch Metrics server_error 2 all_good Metrics) = error_body \<and>
   payload (refetch Metrics server_error 2 all_good Metrics) \<noteq> payload (all_good Metrics)"
  by (simp add: refetch_def completed_def fetcher_defs good_snapshot_def error_body_def
      all_good_def server_error_def)

text \<open>
  C3, as the code has it. In \<^verbatim>\<open>updateMetrics\<close> of the website a request that fails,
  because \<^verbatim>\<open>fetch\<close> rejects, because the response is not \<^verbatim>\<open>ok\<close>, or because its body
  is not JSON, leaves \<^verbatim>\<open>this.metrics\<close> as it was. For each of the four resources of the
  dashboard a request whose \<^verbatim>\<open>fetch\<close> rejects or whose body is not JSON leaves the
  payload as it was, sets the error flag and stamps the time, and touches no other
  resource; a response with a JSON body, \<^verbatim>\<open>ok\<close> or not, puts that body in the place
  of the payload.
\<close>

theorem failed_fetch_keeps_payload:
  "metrics (updateMetrics_settle (Rejected e) displayed a) = metrics a \<and>
   metrics (updateMetrics_settle (Response False body) displayed a) = metrics a \<and>
   metrics (updateMetrics_settle (Response True (Inl e)) displayed a) = metrics a \<and>
   refetch r (\<lambda>path. Rejected e) now snapshots =
     snapshots(r := (snapshots r)\<lparr>failed := True, stamped := now\<rparr>) \<and>
   refetch r (\<lambda>path. Response ok (Inl e)) now snapshots =
     snapshots(r := (snapshots r)\<lparr>failed := True, stamped := now\<rparr>) \<and>
   refetch r (\<lambda>path. Response ok (Inr v)) now snapshots =
     snapshots(r := \<lparr>payload = v, failed = False, stamped = now\<rparr>)"
  by (simp add: updateMetrics_settle_def caught_def Let_def refetch_def completed_def
      queryFn_rejected queryFn_response)

text \<open>
  C4 says that a tick that finds the previous request pending starts no second one.
  The interval callback tests nothing: when the interval is registered the initial
  request has settled, and two ticks with no request settled in between leave two
  requests in flight.
\<close>

theorem overlapping_fetches_counterexample:
  "pending constructor = 1 \<and>
   pending (started no_metrics None) = 0 \<and>
   pending (tick (started no_metrics None)) = 1 \<and>
   pending (tick (tick (started no_metrics None))) = 2 \<and>
   \<not> pending (tick (tick (started no_metrics None))) \<le> 1"
  by (simp add: tick_def updateMetrics_start_def started_def constructor_def no_metrics_def
      updateMetrics_settle_def Let_def)

lemma pending_ticks: "pending (ticks n a) = pending a + n"
  by (induction n arbitrary: a) (simp_all add: tick_def updateMetrics_start_def)

text \<open>
  C4, as the code has it: every tick of the metrics timer starts a request, whether or
  not earlier ones are pending, and changes nothing else; \<open>n\<close> ticks with no request
  settled in between add \<open>n\<close> requests in flight.
\<close>

theorem every_tick_starts_a_fetch:
  "pending (tick a) = Suc (pending a) \<and>
   metrics (tick a) = metrics a \<and>
   app_isConnected (tick a) = app_isConnected a \<and>
   pending (ticks n a) = pending a + n"
  by (simp add: pending_ticks tick_def updateMetrics_start_def)

end
